theory Spec2Isabelle
  imports Main "HOL-Library.Product_Lexorder"
begin

section \<open>Dates\<close>

text \<open>
  Every \<^verbatim>\<open>time.Time\<close> of the program is a calendar day at midnight UTC
  (\<^verbatim>\<open>today\<close> is built that way and the parsed layouts carry no clock), so a
  date is the triple (year, month, day). \<^verbatim>\<open>After\<close> is the strict order of
  instants, which on such triples is the lexicographic order.
\<close>

type_synonym date = "nat \<times> nat \<times> nat"

definition After :: "date \<Rightarrow> date \<Rightarrow> bool" where
  "After t u = (u < t)"

text \<open>The zero value of \<^verbatim>\<open>time.Time\<close>: January 1 of year 1.\<close>

definition zeroTime :: date where
  "zeroTime = (1, 1, 1)"

definition IsZero :: "date \<Rightarrow> bool" where
  "IsZero t = (t = zeroTime)"

section \<open>Errors\<close>

text \<open>Every \<^verbatim>\<open>log.Panic\<close> of the program, named after the place that raises it.\<close>

datatype error =
    OpenError | ReadError | LedgerDateError
  | ResponseError | NoThumbs | ThumbDateError | NoUrl
  | NoTransitionalHref | DetailDateError | NoImgSrc | CreateError | CopyError
  | StatusError | WriteError | StartError | SedError | FirstLineError | IndexOutOfRange | MkdirError | DocumentError

section \<open>The listing page\<close>

text \<open>
  One element of the selection \<^verbatim>\<open>ul.imglist > li\<close>: the result of
  \<^verbatim>\<open>time.Parse(remoteDateLayout, ...)\<close> on the text of its first
  \<^verbatim>\<open>time\<close> element (None when the parse fails) and the \<^verbatim>\<open>href\<close>
  attribute of its first link (None when there is none).
\<close>

record thumb =
  tdate :: "date option"
  thref :: "string option"

definition baseURL :: string where
  "baseURL = ''https://bing.gifposter.com''"

text \<open>
  The callback of \<^verbatim>\<open>EachWithBreak\<close> in part\_000 and part\_001, run over the thumbs
  in document order with the slice \<^verbatim>\<open>urls\<close> as accumulator. Returning
  \<^verbatim>\<open>false\<close> ends the iteration; a panic ends the run.
\<close>

fun collectUrls :: "date \<Rightarrow> date \<Rightarrow> thumb list \<Rightarrow> string list \<Rightarrow> error + string list" where
  "collectUrls lastDate today [] urls = Inr urls"
| "collectUrls lastDate today (t # ts) urls =
     (case tdate t of
        None \<Rightarrow> Inl ThumbDateError
      | Some d \<Rightarrow>
          if \<not> After d lastDate then Inr urls
          else if After d today then collectUrls lastDate today ts urls
          else (case thref t of
                  None \<Rightarrow> Inl NoUrl
                | Some href \<Rightarrow> collectUrls lastDate today ts (urls @ [baseURL @ href])))"

text \<open>The same callback in bingwallpaper.go, which has no test against today.\<close>

fun collectUrls0 :: "date \<Rightarrow> thumb list \<Rightarrow> string list \<Rightarrow> error + string list" where
  "collectUrls0 lastDate [] urls = Inr urls"
| "collectUrls0 lastDate (t # ts) urls =
     (case tdate t of
        None \<Rightarrow> Inl ThumbDateError
      | Some d \<Rightarrow>
          if \<not> After d lastDate then Inr urls
          else (case thref t of
                  None \<Rightarrow> Inl NoUrl
                | Some href \<Rightarrow> collectUrls0 lastDate ts (urls @ [baseURL @ href])))"

text \<open>A thumb that the callback can read in full, and the URL it yields.\<close>

definition thumbOf :: "date \<Rightarrow> string \<Rightarrow> thumb" where
  "thumbOf d href = \<lparr>tdate = Some d, thref = Some href\<rparr>"

section \<open>Strings\<close>

text \<open>
  A Go string is a sequence of bytes, so it is a \<^typ>\<open>string\<close>.
  \<^verbatim>\<open>strings.Replace(s, old, new, -1)\<close> for a one-byte \<^verbatim>\<open>old\<close>.
\<close>

definition Replace :: "string \<Rightarrow> char \<Rightarrow> string \<Rightarrow> string" where
  "Replace s old new = concat (map (\<lambda>c. if c = old then new else [c]) s)"

text \<open>\<^verbatim>\<open>strings.Split(s, sep)[0]\<close> for a non-empty separator: the text before its first occurrence.\<close>

fun SplitHead :: "string \<Rightarrow> string \<Rightarrow> string" where
  "SplitHead [] sep = []"
| "SplitHead (c # cs) sep =
     (if take (length sep) (c # cs) = sep then [] else c # SplitHead cs sep)"

text \<open>
  \<^verbatim>\<open>strings.TrimSpace\<close>: the white space of Unicode, in UTF-8. One byte: tab, line feed,
  vertical tab, form feed, carriage return, space. Two bytes: U+0085, U+00A0. Three bytes:
  U+1680, U+2000 to U+200A, U+2028, U+2029, U+202F, U+205F, U+3000.
\<close>

definition spaceAt :: "string \<Rightarrow> nat" where
  "spaceAt s =
     (case map of_char s of
        a # b # c # _ \<Rightarrow>
          if a = 9 \<or> a = 10 \<or> a = 11 \<or> a = 12 \<or> a = 13 \<or> a = 32 then 1
          else if a = 194 \<and> (b = 133 \<or> b = 160) then 2
          else if a = 225 \<and> b = 154 \<and> c = 128 then 3
          else if a = 226 \<and> b = 128 \<and> (128 \<le> c \<and> c \<le> 138 \<or> c = 168 \<or> c = 169 \<or> c = 175) then 3
          else if a = 226 \<and> b = 129 \<and> c = 159 then 3
          else if a = 227 \<and> b = 128 \<and> c = 128 then 3
          else 0
      | [a, b] \<Rightarrow>
          if a = 9 \<or> a = 10 \<or> a = 11 \<or> a = 12 \<or> a = 13 \<or> a = 32 then 1
          else if a = 194 \<and> (b = 133 \<or> b = 160) then 2
          else 0
      | [a] \<Rightarrow> if a = 9 \<or> a = 10 \<or> a = 11 \<or> a = 12 \<or> a = 13 \<or> a = (32::nat) then 1 else 0
      | [] \<Rightarrow> 0)"

text \<open>The same at the end of the string: the length of a white-space rune that ends it.\<close>

definition spaceAtEnd :: "string \<Rightarrow> nat" where
  "spaceAtEnd s =
     (case map of_char (rev s) of
        c # b # a # _ \<Rightarrow>
          if c = 9 \<or> c = 10 \<or> c = 11 \<or> c = 12 \<or> c = 13 \<or> c = 32 then 1
          else if b = 194 \<and> (c = 133 \<or> c = 160) then 2
          else if a = 225 \<and> b = 154 \<and> c = 128 then 3
          else if a = 226 \<and> b = 128 \<and> (128 \<le> c \<and> c \<le> 138 \<or> c = 168 \<or> c = 169 \<or> c = 175) then 3
          else if a = 226 \<and> b = 129 \<and> c = 159 then 3
          else if a = 227 \<and> b = 128 \<and> c = 128 then 3
          else 0
      | [c, b] \<Rightarrow>
          if c = 9 \<or> c = 10 \<or> c = 11 \<or> c = 12 \<or> c = 13 \<or> c = 32 then 1
          else if b = 194 \<and> (c = 133 \<or> c = 160) then 2
          else 0
      | [c] \<Rightarrow> if c = 9 \<or> c = 10 \<or> c = 11 \<or> c = 12 \<or> c = 13 \<or> c = (32::nat) then 1 else 0
      | [] \<Rightarrow> 0)"

function TrimLeft :: "string \<Rightarrow> string" where
  "TrimLeft s = (if spaceAt s = 0 \<or> s = [] then s else TrimLeft (drop (spaceAt s) s))"
  by pat_completeness auto
termination
  by (relation "measure length") auto

function TrimRight :: "string \<Rightarrow> string" where
  "TrimRight s =
     (if spaceAtEnd s = 0 \<or> s = [] then s else TrimRight (take (length s - spaceAtEnd s) s))"
  by pat_completeness auto
termination
  by (relation "measure length") auto

definition TrimSpace :: "string \<Rightarrow> string" where
  "TrimSpace s = TrimRight (TrimLeft s)"

text \<open>\<^verbatim>\<open>src[strings.LastIndex(src, "/")+1:]\<close>: all of \<^verbatim>\<open>src\<close> when it has no slash.\<close>

definition afterLastSlash :: "string \<Rightarrow> string" where
  "afterLastSlash src = rev (takeWhile (\<lambda>c. c \<noteq> CHR ''/'') (rev src))"

text \<open>
  \<^verbatim>\<open>reader.ReadString('\n')\<close> on a fresh reader: the text up to and including the first
  line feed, and an error (None) when the file has none.
\<close>

definition ReadString :: "string \<Rightarrow> string option" where
  "ReadString f =
     (if CHR 0x0A \<in> set f then Some (takeWhile (\<lambda>c. c \<noteq> CHR 0x0A) f @ [CHR 0x0A]) else None)"

text \<open>The last element of \<^verbatim>\<open>strings.SplitN(s, " ", 3)\<close>.\<close>

definition afterSpace :: "string \<Rightarrow> string" where
  "afterSpace s = (if CHR '' '' \<in> set s then tl (dropWhile (\<lambda>c. c \<noteq> CHR '' '') s) else s)"

definition SplitN3Last :: "string \<Rightarrow> string" where
  "SplitN3Last s = afterSpace (afterSpace s)"

section \<open>Date layouts\<close>

definition isDigit :: "char \<Rightarrow> bool" where
  "isDigit c = (48 \<le> (of_char c :: nat) \<and> (of_char c :: nat) \<le> 57)"

definition digitVal :: "char \<Rightarrow> nat" where
  "digitVal c = of_char c - 48"

definition isLeap :: "nat \<Rightarrow> bool" where
  "isLeap y = (y mod 4 = 0 \<and> (y mod 100 \<noteq> 0 \<or> y mod 400 = 0))"

definition daysIn :: "nat \<Rightarrow> nat \<Rightarrow> nat" where
  "daysIn m y =
     (if m = 2 then (if isLeap y then 29 else 28)
      else if m = 4 \<or> m = 6 \<or> m = 9 \<or> m = 11 then 30 else 31)"

text \<open>
  \<^verbatim>\<open>time.Parse("20060102", s)\<close>: four digits of year, two of month, two of day and nothing
  more; the month is in 1..12 and the day exists in that month.
\<close>

definition parseLocal :: "string \<Rightarrow> date option" where
  "parseLocal s =
     (case s of
        [y1, y2, y3, y4, m1, m2, d1, d2] \<Rightarrow>
          if \<not> list_all isDigit s then None
          else
            let y = digitVal y1 * 1000 + digitVal y2 * 100 + digitVal y3 * 10 + digitVal y4;
                m = digitVal m1 * 10 + digitVal m2;
                d = digitVal d1 * 10 + digitVal d2
            in if m = 0 \<or> 12 < m then None
               else if d < 1 \<or> daysIn m y < d then None
               else Some (y, m, d)
      | _ \<Rightarrow> None)"

text \<open>\<^verbatim>\<open>appendInt(b, n, width)\<close> of package time: decimal, padded with zeros to the width.\<close>

fun decimal :: "nat \<Rightarrow> string" where
  "decimal n = (if n < 10 then [char_of (48 + n)] else decimal (n div 10) @ [char_of (48 + n mod 10)])"

definition appendInt :: "nat \<Rightarrow> nat \<Rightarrow> string" where
  "appendInt n width = replicate (width - length (decimal n)) (CHR ''0'') @ decimal n"

text \<open>\<^verbatim>\<open>date.Format("20060102")\<close>.\<close>

definition formatLocal :: "date \<Rightarrow> string" where
  "formatLocal t = (case t of (y, m, d) \<Rightarrow> appendInt y 4 @ appendInt m 2 @ appendInt d 2)"


text \<open>
  \<^verbatim>\<open>today.AddDate(0, 0, -1)\<close>. The clock's date is never before year 1, so the years
  before it are not represented.
\<close>

definition prevDay :: "date \<Rightarrow> date" where
  "prevDay t =
     (case t of (y, m, d) \<Rightarrow>
        if 1 < d then (y, m, d - 1)
        else if 1 < m then (y, m - 1, daysIn (m - 1) y)
        else (y - 1, 12, 31))"

section \<open>The world outside the program\<close>

text \<open>
  What goquery finds in a document, one field for each selector the program uses:
  the thumbs of the listing page, the \<^verbatim>\<open>href\<close> of the first \<^verbatim>\<open>a.fl\<close> of a transitional
  page, and on a photo page the parsed text of \<^verbatim>\<open>time[itemprop='date']\<close>, the texts of
  \<^verbatim>\<open>div.title\<close> and \<^verbatim>\<open>div.description\<close> and the \<^verbatim>\<open>src\<close> of \<^verbatim>\<open>#bing_wallpaper\<close>.
\<close>

record page =
  thumbs :: "thumb list"
  flHref :: "string option"
  detailDate :: "date option"
  titleText :: string
  descriptionText :: string
  imgSrc :: "string option"

text \<open>
  A response: its status code, its body, and the document
  \<^verbatim>\<open>goquery.NewDocumentFromReader\<close> makes of the body (None when that fails).
\<close>

record response =
  statusCode :: nat
  document :: "page option"
  content :: string

text \<open>The calls on the file system and the process table that can fail.\<close>

datatype syscall =
    Mkdir | CreateLedger | WriteLedger | OpenLedger | ReopenLedger
  | CreateImage string | CopyImage string | StartFbsetbg | StartZenity | StartSed

text \<open>
  The environment of one run: the web (None when \<^verbatim>\<open>http.Get\<close> returns an error), the stream editor \<^verbatim>\<open>sed -i script file\<close> as a function of the script and the
  file's content (None when it exits with an error and leaves the file as it was), the
  calls that fail, the value of \<^verbatim>\<open>HOME\<close> and the date of the clock.
\<close>

record env =
  web :: "string \<Rightarrow> response option"
  sed :: "string \<Rightarrow> string \<Rightarrow> string option"
  fails :: "syscall \<Rightarrow> bool"
  home :: string
  today :: date

text \<open>What a run does that can be seen from outside, in order.\<close>

datatype event =
    Get string
  | Fbsetbg string
  | Zenity "string list"
  | Sed string
  | Printf string

text \<open>
  The state a run changes: the image directory, the ledger file (None when it does not
  exist), the image files by name, and the events so far.
\<close>

record world =
  imgDirExists :: bool
  wpFile :: "string option"
  images :: "string \<rightharpoonup> string"
  trace :: "event list"

section \<open>Panics and state\<close>

type_synonym 'a prog = "world \<Rightarrow> (error + 'a) \<times> world"

definition ret :: "'a \<Rightarrow> 'a prog" where
  "ret x w = (Inr x, w)"

definition panic :: "error \<Rightarrow> 'a prog" where
  "panic e w = (Inl e, w)"

definition andThen :: "'a prog \<Rightarrow> ('a \<Rightarrow> 'b prog) \<Rightarrow> 'b prog" where
  "andThen m f w = (case m w of (Inl e, w') \<Rightarrow> (Inl e, w') | (Inr x, w') \<Rightarrow> f x w')"

definition emit :: "event \<Rightarrow> unit prog" where
  "emit ev w = (Inr (), w\<lparr>trace := trace w @ [ev]\<rparr>)"

definition orPanic :: "'a option \<Rightarrow> error \<Rightarrow> 'a prog" where
  "orPanic x e = (case x of None \<Rightarrow> panic e | Some v \<Rightarrow> ret v)"

definition panicIf :: "bool \<Rightarrow> error \<Rightarrow> unit prog" where
  "panicIf b e = (if b then panic e else ret ())"

definition imgDir :: "env \<Rightarrow> string" where
  "imgDir E = home E @ ''/Images/bing-wallpapers''"

section \<open>The program of part\_000\<close>

definition startURL :: string where
  "startURL = ''https://bing.gifposter.com/list/new/desc/classic.html''"

definition getResponse :: "env \<Rightarrow> string \<Rightarrow> response prog" where
  "getResponse E url =
     andThen (emit (Get url)) (\<lambda>_.
     andThen (orPanic (web E url) ResponseError) (\<lambda>response.
     andThen (panicIf (statusCode response \<noteq> 200) StatusError) (\<lambda>_.
       ret response)))"

definition NewDocument :: "response \<Rightarrow> page prog" where
  "NewDocument r = orPanic (document r) DocumentError"

text \<open>The separator of \<^verbatim>\<open>strings.Split(title, ...)\<close>, the four bytes it has in the source file.\<close>

definition copyrightSep :: string where
  "copyrightSep = [CHR 0xC3, CHR 0x82, CHR 0xC2, CHR 0xA9]"

text \<open>
  \<^verbatim>\<open>os.Create\<close> truncates the image file before the image is requested, and
  \<^verbatim>\<open>io.Copy\<close> fills it.
\<close>

definition saveImage :: "env \<Rightarrow> string \<Rightarrow> string \<Rightarrow> unit prog" where
  "saveImage E filename src =
     andThen (panicIf (fails E (CreateImage filename)) CreateError) (\<lambda>_.
     andThen (\<lambda>w. (Inr (), w\<lparr>images := (images w)(filename \<mapsto> [])\<rparr>)) (\<lambda>_.
     andThen (getResponse E src) (\<lambda>r.
     andThen (panicIf (fails E (CopyImage filename)) CopyError) (\<lambda>_.
       (\<lambda>w. (Inr (), w\<lparr>images := (images w)(filename \<mapsto> content r)\<rparr>))))))"

definition downloadWallpaper :: "env \<Rightarrow> string \<Rightarrow> (date \<times> string \<times> string \<times> string) prog" where
  "downloadWallpaper E url =
     andThen (getResponse E url) (\<lambda>r.
     andThen (NewDocument r) (\<lambda>root.
     andThen (orPanic (flHref root) NoTransitionalHref) (\<lambda>href.
     andThen (getResponse E (baseURL @ href)) (\<lambda>r2.
     andThen (NewDocument r2) (\<lambda>root2.
     andThen (orPanic (detailDate root2) DetailDateError) (\<lambda>date.
     andThen (orPanic (imgSrc root2) NoImgSrc) (\<lambda>src.
     andThen (saveImage E (afterLastSlash src) src) (\<lambda>_.
       ret (date, afterLastSlash src,
            TrimSpace (SplitHead (titleText root2) copyrightSep),
            descriptionText root2)))))))))"

definition setWallpaper :: "env \<Rightarrow> string \<Rightarrow> string \<Rightarrow> string \<Rightarrow> unit prog" where
  "setWallpaper E filename title description =
     andThen (panicIf (fails E StartFbsetbg) StartError) (\<lambda>_.
     andThen (emit (Fbsetbg (imgDir E @ ''/'' @ filename))) (\<lambda>_.
     andThen (panicIf (fails E StartZenity) StartError) (\<lambda>_.
       emit (Zenity [''--info'', ''--width=600'', ''--no-markup'', ''--title'', title,
                     ''--text'', title @ [CHR 0x0A, CHR 0x0A] @ description]))))"

text \<open>The three replacements of \<^verbatim>\<open>logWallpaper\<close>, in its order.\<close>

definition fixDescription :: "string \<Rightarrow> string" where
  "fixDescription description =
     Replace (Replace (Replace description (CHR ''&'') (CHR 0x5C # ''x26''))
                (CHR 0x27) (CHR 0x5C # ''x27''))
       (CHR '';'') (CHR 0x5C # ''x3b'')"

text \<open>The line of \<^verbatim>\<open>logWallpaper\<close>; it ends in a backslash and the letter n.\<close>

definition ledgerLine :: "date \<Rightarrow> string \<Rightarrow> string \<Rightarrow> string" where
  "ledgerLine date filename fixedDescription =
     formatLocal date @ '' '' @ filename @ '' '' @ fixedDescription @ [CHR 0x5C, CHR ''n'']"

definition sedScript :: "string \<Rightarrow> string" where
  "sedScript line = ''1s;^;'' @ line @ '';''"

text \<open>
  \<^verbatim>\<open>sedCmd.Run()\<close> waits for the editor: the file is rewritten when it returns. Without
  the file the editor exits with an error.
\<close>

definition runSed :: "env \<Rightarrow> string \<Rightarrow> unit prog" where
  "runSed E script =
     andThen (panicIf (fails E StartSed) SedError) (\<lambda>_.
     andThen (emit (Sed script)) (\<lambda>_.
     andThen (\<lambda>w. orPanic (case wpFile w of None \<Rightarrow> None | Some f \<Rightarrow> sed E script f) SedError w) (\<lambda>f'.
       (\<lambda>w. (Inr (), w\<lparr>wpFile := Some f'\<rparr>)))))"

definition mismatchMessage :: "date \<Rightarrow> string" where
  "mismatchMessage date =
     formatLocal date @ '': Original description and saved description are mismatched.''"

definition logWallpaper :: "env \<Rightarrow> date \<Rightarrow> string \<Rightarrow> string \<Rightarrow> string \<Rightarrow> unit prog" where
  "logWallpaper E date filename title description0 =
     (let description = title @ ''.  '' @ description0 in
      andThen (runSed E (sedScript (ledgerLine date filename (fixDescription description)))) (\<lambda>_.
      andThen (panicIf (fails E ReopenLedger) OpenError) (\<lambda>_.
      andThen (\<lambda>w. orPanic (case wpFile w of None \<Rightarrow> None | Some f \<Rightarrow> ReadString f) FirstLineError w) (\<lambda>firstLine.
        if TrimSpace (SplitN3Last firstLine) \<noteq> TrimSpace description
        then emit (Printf (mismatchMessage date)) else ret ()))))"

text \<open>
  The first part of \<^verbatim>\<open>main\<close>: the image directory, then the last date. The result None
  is \<^verbatim>\<open>os.Exit(0)\<close>; otherwise it is the value of the variable \<^verbatim>\<open>lastDate\<close>, which
  stays the zero time when the ledger did not exist. \<^verbatim>\<open>f.Read\<close> fills the front of a
  buffer of eight zero bytes and fails only at the end of the file.
\<close>

definition makeImgDir :: "env \<Rightarrow> unit prog" where
  "makeImgDir E w =
     (if imgDirExists w then ret () w
      else andThen (panicIf (fails E Mkdir) MkdirError) (\<lambda>_ w'. (Inr (), w'\<lparr>imgDirExists := True\<rparr>)) w)"

definition readLastDateBytes :: "string \<Rightarrow> string" where
  "readLastDateBytes f = take 8 f @ replicate (8 - length f) (CHR 0x00)"

definition fetchLastDate :: "env \<Rightarrow> date option prog" where
  "fetchLastDate E w =
     (case wpFile w of
        None \<Rightarrow>
          andThen (panicIf (fails E CreateLedger) CreateError) (\<lambda>_.
          andThen (\<lambda>w'. (Inr (), w'\<lparr>wpFile := Some []\<rparr>)) (\<lambda>_.
          andThen (panicIf (fails E WriteLedger) WriteError) (\<lambda>_.
          andThen (\<lambda>w'. (Inr (), w'\<lparr>wpFile := Some [CHR 0x0A]\<rparr>)) (\<lambda>_.
            ret (Some zeroTime))))) w
      | Some f \<Rightarrow>
          andThen (panicIf (fails E OpenLedger) OpenError) (\<lambda>_.
          andThen (panicIf (f = []) ReadError) (\<lambda>_.
          andThen (orPanic (parseLocal (readLastDateBytes f)) LedgerDateError) (\<lambda>lastDate.
            if lastDate = today E then ret None else ret (Some lastDate)))) w)"

text \<open>The loop \<^verbatim>\<open>for i := len(urls) - 1; i > 0; i--\<close> over the URLs it visits, in its order.\<close>

fun backfill :: "env \<Rightarrow> string list \<Rightarrow> unit prog" where
  "backfill E [] = ret ()"
| "backfill E (url # rest) =
     andThen (downloadWallpaper E url) (\<lambda>(date, filename, title, description).
     andThen (logWallpaper E date filename title description) (\<lambda>_.
       backfill E rest))"

definition processUrls :: "env \<Rightarrow> string list \<Rightarrow> unit prog" where
  "processUrls E urls =
     (if 0 < length urls then
        andThen (backfill E (rev (tl urls))) (\<lambda>_.
        andThen (downloadWallpaper E (hd urls)) (\<lambda>(date, filename, title, description).
        andThen (setWallpaper E filename title description) (\<lambda>_.
          logWallpaper E date filename title description)))
      else ret ())"

definition listThumbs :: "env \<Rightarrow> string \<Rightarrow> thumb list prog" where
  "listThumbs E url =
     andThen (getResponse E url) (\<lambda>r.
     andThen (NewDocument r) (\<lambda>root.
     andThen (panicIf (thumbs root = []) NoThumbs) (\<lambda>_.
       ret (thumbs root))))"

definition main :: "env \<Rightarrow> unit prog" where
  "main E =
     andThen (makeImgDir E) (\<lambda>_.
     andThen (fetchLastDate E) (\<lambda>r.
       case r of
         None \<Rightarrow> ret ()
       | Some lastDate0 \<Rightarrow>
           (let lastDate = (if IsZero lastDate0 then prevDay (today E) else lastDate0) in
            andThen (listThumbs E startURL) (\<lambda>ts.
            andThen (\<lambda>w. (collectUrls lastDate (today E) ts [], w)) (\<lambda>urls.
              processUrls E urls)))))"

text \<open>The exit status of the process: a panic ends it with status 2.\<close>

definition exitStatus :: "(error + unit) \<times> world \<Rightarrow> nat" where
  "exitStatus r = (case fst r of Inl e \<Rightarrow> 2 | Inr u \<Rightarrow> 0)"

section \<open>The program of bingwallpaper.go\<close>

text \<open>\<^verbatim>\<open>strings.Index(s, sep)\<close>, None for -1.\<close>

fun Index :: "string \<Rightarrow> string \<Rightarrow> nat option" where
  "Index [] sep = (if sep = [] then Some 0 else None)"
| "Index (c # cs) sep =
     (if take (length sep) (c # cs) = sep then Some 0 else map_option Suc (Index cs sep))"

text \<open>\<^verbatim>\<open>strings.Trim(s, " ")\<close>.\<close>

definition TrimBlank :: "string \<Rightarrow> string" where
  "TrimBlank s = rev (dropWhile (\<lambda>c. c = CHR '' '') (rev (dropWhile (\<lambda>c. c = CHR '' '') s)))"

definition COPYRIGHT_TEXT :: string where
  "COPYRIGHT_TEXT = [CHR 0xC2, CHR 0xA9]"

text \<open>Here the image is requested with \<^verbatim>\<open>http.Get\<close> and its status is not looked at.\<close>

definition saveImage0 :: "env \<Rightarrow> string \<Rightarrow> string \<Rightarrow> unit prog" where
  "saveImage0 E filename src =
     andThen (panicIf (fails E (CreateImage filename)) CreateError) (\<lambda>_.
     andThen (\<lambda>w. (Inr (), w\<lparr>images := (images w)(filename \<mapsto> [])\<rparr>)) (\<lambda>_.
     andThen (emit (Get src)) (\<lambda>_.
     andThen (orPanic (web E src) ResponseError) (\<lambda>r.
     andThen (panicIf (fails E (CopyImage filename)) CopyError) (\<lambda>_.
       (\<lambda>w. (Inr (), w\<lparr>images := (images w)(filename \<mapsto> content r)\<rparr>)))))))"

definition downloadWallpaper0 :: "env \<Rightarrow> string \<Rightarrow> (date \<times> string \<times> string) prog" where
  "downloadWallpaper0 E url =
     andThen (getResponse E url) (\<lambda>r.
     andThen (NewDocument r) (\<lambda>root.
     andThen (orPanic (detailDate root) DetailDateError) (\<lambda>date.
     andThen (orPanic (imgSrc root) NoImgSrc) (\<lambda>src.
     andThen (saveImage0 E (afterLastSlash (baseURL @ src)) (baseURL @ src)) (\<lambda>_.
       ret (date, afterLastSlash (baseURL @ src),
            (case Index (titleText root) COPYRIGHT_TEXT of
               None \<Rightarrow> titleText root
             | Some copyrightIndex \<Rightarrow> TrimBlank (take copyrightIndex (titleText root)))))))))"

definition setWallpaper0 :: "env \<Rightarrow> string \<Rightarrow> string \<Rightarrow> unit prog" where
  "setWallpaper0 E filename title =
     andThen (panicIf (fails E StartFbsetbg) StartError) (\<lambda>_.
     andThen (emit (Fbsetbg (imgDir E @ ''/'' @ filename))) (\<lambda>_.
     andThen (panicIf (fails E StartZenity) StartError) (\<lambda>_.
       emit (Zenity [''--info'', ''--text'', title]))))"

text \<open>
  \<^verbatim>\<open>sedCmd.Start()\<close> does not wait for the editor: the function returns once the
  process is started, and what the editor does to the file happens beside the program.
  The event is the start of the process; the file is not changed here.
\<close>

definition logWallpaper0 :: "env \<Rightarrow> date \<Rightarrow> string \<Rightarrow> string \<Rightarrow> unit prog" where
  "logWallpaper0 E date filename title =
     andThen (panicIf (fails E StartSed) StartError) (\<lambda>_.
       emit (Sed (sedScript (ledgerLine date filename (Replace title (CHR 0x27) (CHR 0x5C # ''x27''))))))"

fun backfill0 :: "env \<Rightarrow> string list \<Rightarrow> unit prog" where
  "backfill0 E [] = ret ()"
| "backfill0 E (url # rest) =
     andThen (downloadWallpaper0 E url) (\<lambda>(date, filename, title).
     andThen (logWallpaper0 E date filename title) (\<lambda>_.
       backfill0 E rest))"

text \<open>Without a test of \<^verbatim>\<open>len(urls)\<close>, \<^verbatim>\<open>urls[0]\<close> of an empty slice is a run-time panic.\<close>

definition processUrls0 :: "env \<Rightarrow> string list \<Rightarrow> unit prog" where
  "processUrls0 E urls =
     andThen (backfill0 E (rev (tl urls))) (\<lambda>_.
     andThen (orPanic (case urls of [] \<Rightarrow> None | url # _ \<Rightarrow> Some url) IndexOutOfRange) (\<lambda>url.
     andThen (downloadWallpaper0 E url) (\<lambda>(date, filename, title).
     andThen (setWallpaper0 E filename title) (\<lambda>_.
       logWallpaper0 E date filename title))))"

definition main0 :: "env \<Rightarrow> unit prog" where
  "main0 E =
     andThen (makeImgDir E) (\<lambda>_.
     andThen (fetchLastDate E) (\<lambda>r.
       case r of
         None \<Rightarrow> ret ()
       | Some lastDate0 \<Rightarrow>
           (let lastDate = (if IsZero lastDate0 then prevDay (today E) else lastDate0) in
            andThen (listThumbs E baseURL) (\<lambda>ts.
            andThen (\<lambda>w. (collectUrls0 lastDate ts [], w)) (\<lambda>urls.
              processUrls0 E urls)))))"

section \<open>Notions the properties are stated with\<close>

text \<open>A thumb whose date parses and is strictly after the given date.\<close>

definition datedAfter :: "date \<Rightarrow> thumb \<Rightarrow> bool" where
  "datedAfter t0 t = (case tdate t of None \<Rightarrow> False | Some d \<Rightarrow> After d t0)"

text \<open>The URLs of the thumbs that have a link, in their order.\<close>

definition urlsOf :: "thumb list \<Rightarrow> string list" where
  "urlsOf ts = concat (map (\<lambda>t. case thref t of None \<Rightarrow> [] | Some href \<Rightarrow> [baseURL @ href]) ts)"

text \<open>
  The part of \<^verbatim>\<open>main\<close> of part\_000 before the loop over \<^verbatim>\<open>urls\<close>: its result is
  None when the program has left through \<^verbatim>\<open>os.Exit(0)\<close>, and the slice \<^verbatim>\<open>urls\<close>
  otherwise.
\<close>

definition computeWindow :: "env \<Rightarrow> string list option prog" where
  "computeWindow E =
     andThen (makeImgDir E) (\<lambda>_.
     andThen (fetchLastDate E) (\<lambda>r.
       case r of
         None \<Rightarrow> ret None
       | Some lastDate0 \<Rightarrow>
           (let lastDate = (if IsZero lastDate0 then prevDay (today E) else lastDate0) in
            andThen (listThumbs E startURL) (\<lambda>ts.
            andThen (\<lambda>w. (collectUrls lastDate (today E) ts [], w)) (\<lambda>urls.
              ret (Some urls))))))"

section \<open>The stream editor and the ledger\<close>

text \<open>
  The program hands the editor the script \<^verbatim>\<open>1s;^;line;\<close> and relies on it to put the
  text of \<^verbatim>\<open>line\<close> in front of the first line of the file, reading backslash-n as a
  line feed and the escapes that \<^verbatim>\<open>logWallpaper\<close> writes (backslash-x26, -x27, -x3b)
  as the ampersand, the apostrophe and the semicolon. \<open>sedText\<close> is that reading of a
  replacement; it is None for a replacement with anything else the editor treats
  specially: another backslash sequence, a bare ampersand, semicolon or line feed.
\<close>

function sedText :: "string \<Rightarrow> string option" where
  "sedText [] = Some []"
| "sedText (c # cs) =
     (if c = CHR 0x5C then
        (if take 1 cs = ''n'' then map_option ((#) (CHR 0x0A)) (sedText (drop 1 cs))
         else if take 3 cs = ''x26'' then map_option ((#) (CHR ''&'')) (sedText (drop 3 cs))
         else if take 3 cs = ''x27'' then map_option ((#) (CHR 0x27)) (sedText (drop 3 cs))
         else if take 3 cs = ''x3b'' then map_option ((#) (CHR '';'')) (sedText (drop 3 cs))
         else None)
      else if c = CHR '';'' \<or> c = CHR ''&'' \<or> c = CHR 0x0A then None
      else map_option ((#) c) (sedText cs))"
  by pat_completeness auto
termination
  by (relation "measure length") auto


text \<open>
  An editor that keeps the contract and fails on every other script. An empty file has no
  first line and stays empty.
\<close>

definition sedModel :: "string \<Rightarrow> string \<Rightarrow> string option" where
  "sedModel script f =
     (if take 5 script = ''1s;^;'' \<and> 6 \<le> length script \<and> last script = CHR '';'' then
        (case sedText (butlast (drop 5 script)) of
           None \<Rightarrow> None
         | Some text \<Rightarrow> Some (if f = [] then [] else text @ f))
      else None)"
























section \<open>Concrete worlds\<close>

text \<open>Pages and responses to build a web from, and an environment in which no call fails.\<close>

definition thumbsPage :: "thumb list \<Rightarrow> page" where
  "thumbsPage ts =
     \<lparr>thumbs = ts, flHref = None, detailDate = None, titleText = [], descriptionText = [],
      imgSrc = None\<rparr>"

definition transitionalPage :: "string \<Rightarrow> page" where
  "transitionalPage href =
     \<lparr>thumbs = [], flHref = Some href, detailDate = None, titleText = [], descriptionText = [],
      imgSrc = None\<rparr>"

definition photoPage :: "date \<Rightarrow> string \<Rightarrow> string \<Rightarrow> string \<Rightarrow> page" where
  "photoPage d title description src =
     \<lparr>thumbs = [], flHref = None, detailDate = Some d, titleText = title,
      descriptionText = description, imgSrc = Some src\<rparr>"

definition ok :: "page \<Rightarrow> response" where
  "ok p = \<lparr>statusCode = 200, document = Some p, content = []\<rparr>"

definition image :: "string \<Rightarrow> response" where
  "image bytes = \<lparr>statusCode = 200, document = None, content = bytes\<rparr>"

definition ledgerWorld :: "string \<Rightarrow> world" where
  "ledgerWorld f = \<lparr>imgDirExists = True, wpFile = Some f, images = Map.empty, trace = []\<rparr>"

text \<open>
  January 11: the ledger ends at January 10 and the listing of bingwallpaper.go shows
  nothing newer.
\<close>

definition nothingNew0 :: env where
  "nothingNew0 =
     \<lparr>web = (\<lambda>url. if url = baseURL then Some (ok (thumbsPage [thumbOf (2024, 1, 10) ''/p/10'']))
                  else None),
      sed = (\<lambda>script f. None), fails = (\<lambda>c. False), home = ''/home/u'', today = (2024, 1, 11)\<rparr>"

text \<open>
  January 11 again: the listing of bingwallpaper.go already shows January 12, whose page
  answers 404, before January 11 and January 10.
\<close>

definition tomorrowListed0 :: env where
  "tomorrowListed0 =
     \<lparr>web = (\<lambda>url.
        if url = baseURL then
          Some (ok (thumbsPage [thumbOf (2024, 1, 12) ''/p/12'', thumbOf (2024, 1, 11) ''/p/11'',
                                thumbOf (2024, 1, 10) ''/p/10'']))
        else if url = baseURL @ ''/p/11'' then
          Some (ok (photoPage (2024, 1, 11) ''Dunes'' ''Sand'' ''/img/11.jpg''))
        else if url = baseURL @ ''/img/11.jpg'' then Some (image ''JPEG'')
        else if url = baseURL @ ''/p/12'' then
          Some \<lparr>statusCode = 404, document = None, content = []\<rparr>
        else None),
      sed = (\<lambda>script f. None), fails = (\<lambda>c. False), home = ''/home/u'', today = (2024, 1, 11)\<rparr>"

text \<open>A ledger whose newest record is that of January 10.\<close>

definition ledgerJan10 :: string where
  "ledgerJan10 = ''20240110 10.jpg Harbour.  Boats'' @ [CHR 0x0A]"




definition siteEnv :: "(string \<times> response) list \<Rightarrow> thumb list \<Rightarrow> date \<Rightarrow> env" where
  "siteEnv pages ts t =
     \<lparr>web = map_of ((startURL, ok (thumbsPage ts)) # pages), sed = sedModel,
      fails = (\<lambda>c. False), home = ''/home/u'', today = t\<rparr>"





section \<open>The window of the catch-up\<close>

lemma collectUrls_prefix:
  assumes "\<forall>t\<in>set pre. datedAfter lastDate t \<and> (datedAfter tday t \<or> thref t \<noteq> None)"
  shows "collectUrls lastDate tday (pre @ rest) acc =
         collectUrls lastDate tday rest (acc @ urlsOf (filter (\<lambda>t. \<not> datedAfter tday t) pre))"
  using assms
proof (induction pre arbitrary: acc)
  case Nil
  then show ?case by (simp add: urlsOf_def)
next
  case (Cons t pre)
  from Cons.prems obtain d where d: "tdate t = Some d" "After d lastDate"
    by (auto simp: datedAfter_def split: option.splits)
  have rest: "\<forall>t\<in>set pre. datedAfter lastDate t \<and> (datedAfter tday t \<or> thref t \<noteq> None)"
    using Cons.prems by simp
  show ?case
  proof (cases "After d tday")
    case True
    then have "datedAfter tday t" by (simp add: datedAfter_def d)
    then show ?thesis using d True Cons.IH [OF rest] by simp
  next
    case False
    then have nf: "\<not> datedAfter tday t" by (simp add: datedAfter_def d)
    with Cons.prems obtain href where h: "thref t = Some href" by auto
    show ?thesis using d False nf h Cons.IH [OF rest, of "acc @ [baseURL @ href]"]
      by (simp add: urlsOf_def)
  qed
qed

lemma collectUrls0_prefix:
  assumes "\<forall>t\<in>set pre. datedAfter lastDate t \<and> thref t \<noteq> None"
  shows "collectUrls0 lastDate (pre @ rest) acc = collectUrls0 lastDate rest (acc @ urlsOf pre)"
  using assms
proof (induction pre arbitrary: acc)
  case Nil
  then show ?case by (simp add: urlsOf_def)
next
  case (Cons t pre)
  from Cons.prems obtain d href where d: "tdate t = Some d" "After d lastDate" "thref t = Some href"
    by (auto simp: datedAfter_def split: option.splits)
  have rest: "\<forall>t\<in>set pre. datedAfter lastDate t \<and> thref t \<noteq> None"
    using Cons.prems by simp
  show ?case using d Cons.IH [OF rest, of "acc @ [baseURL @ href]"]
    by (simp add: urlsOf_def)
qed

lemma collectUrls_stop:
  "tdate stop = Some d0 \<Longrightarrow> \<not> After d0 lastDate \<Longrightarrow>
   collectUrls lastDate tday (stop # rest) acc = Inr acc"
  by simp

lemma collectUrls0_stop:
  "tdate stop = Some d0 \<Longrightarrow> \<not> After d0 lastDate \<Longrightarrow>
   collectUrls0 lastDate (stop # rest) acc = Inr acc"
  by simp

text \<open>
  C4, as amended. When the thumbs \<open>pre\<close> are all dated strictly after \<open>lastDate\<close> and
  the thumb \<open>stop\<close> behind them is not, the scan of part\_000 and part\_001 collects the
  URLs of exactly those thumbs of \<open>pre\<close> that are not dated after today, in listing
  order, and the scan of bingwallpaper.go the URLs of all of \<open>pre\<close>; either scan ends at
  \<open>stop\<close>, so that the thumbs \<open>rest\<close> behind it have no influence, whatever they are.
  The same lists are collected when the listing ends with \<open>pre\<close>.
\<close>

theorem collectUrls_window:
  assumes "\<forall>t\<in>set pre. datedAfter lastDate t \<and> thref t \<noteq> None"
    and "tdate stop = Some d0" and "\<not> After d0 lastDate"
  shows "collectUrls lastDate tday (pre @ stop # rest) [] =
           Inr (urlsOf (filter (\<lambda>t. \<not> datedAfter tday t) pre))
       \<and> collectUrls lastDate tday pre [] =
           Inr (urlsOf (filter (\<lambda>t. \<not> datedAfter tday t) pre))
       \<and> collectUrls0 lastDate (pre @ stop # rest) [] = Inr (urlsOf pre)
       \<and> collectUrls0 lastDate pre [] = Inr (urlsOf pre)"
proof -
  have a: "\<forall>t\<in>set pre. datedAfter lastDate t \<and> (datedAfter tday t \<or> thref t \<noteq> None)"
    using assms(1) by blast
  have "collectUrls lastDate tday (pre @ stop # rest) [] =
        collectUrls lastDate tday (stop # rest) ([] @ urlsOf (filter (\<lambda>t. \<not> datedAfter tday t) pre))"
    by (rule collectUrls_prefix [OF a])
  then have 1: "collectUrls lastDate tday (pre @ stop # rest) [] =
        Inr (urlsOf (filter (\<lambda>t. \<not> datedAfter tday t) pre))"
    using collectUrls_stop [OF assms(2,3)] by simp
  have 2: "collectUrls lastDate tday pre [] = Inr (urlsOf (filter (\<lambda>t. \<not> datedAfter tday t) pre))"
    using collectUrls_prefix [OF a, where rest = "[]" and acc = "[]"] by simp
  have "collectUrls0 lastDate (pre @ stop # rest) [] = collectUrls0 lastDate (stop # rest) ([] @ urlsOf pre)"
    by (rule collectUrls0_prefix [OF assms(1)])
  then have 3: "collectUrls0 lastDate (pre @ stop # rest) [] = Inr (urlsOf pre)"
    using collectUrls0_stop [OF assms(2,3)] by simp
  have 4: "collectUrls0 lastDate pre [] = Inr (urlsOf pre)"
    using collectUrls0_prefix [OF assms(1), where rest = "[]" and acc = "[]"] by simp
  from 1 2 3 4 show ?thesis by blast
qed

theorem collectUrls_window_witness:
  "collectUrls (2024, 1, 10) (2024, 1, 12)
     ([thumbOf (2024, 1, 13) ''/a'', thumbOf (2024, 1, 12) ''/b''] @
      thumbOf (2024, 1, 10) ''/c'' # [\<lparr>tdate = None, thref = None\<rparr>]) [] =
   Inr [''https://bing.gifposter.com/b'']
   \<and> collectUrls0 (2024, 1, 10)
     ([thumbOf (2024, 1, 13) ''/a'', thumbOf (2024, 1, 12) ''/b''] @
      thumbOf (2024, 1, 10) ''/c'' # [\<lparr>tdate = None, thref = None\<rparr>]) [] =
   Inr [''https://bing.gifposter.com/a'', ''https://bing.gifposter.com/b'']"
  using collectUrls_window [where pre = "[thumbOf (2024, 1, 13) ''/a'', thumbOf (2024, 1, 12) ''/b'']"
      and lastDate = "(2024, 1, 10)" and stop = "thumbOf (2024, 1, 10) ''/c''" and ?d0.0 = "(2024, 1, 10)"
      and tday = "(2024, 1, 12)" and rest = "[\<lparr>tdate = None, thref = None\<rparr>]"]
  by (simp add: datedAfter_def thumbOf_def After_def urlsOf_def baseURL_def)

text \<open>
  C4 as stated fails on part\_000: with the last date January 10 and today January 12, the
  leading thumbs dated January 13 and 12 are both strictly after the last date, and only
  the second is collected.
\<close>

theorem collectUrls_prefix_counterexample:
  "collectUrls (2024, 1, 10) (2024, 1, 12)
     [thumbOf (2024, 1, 13) ''/a'', thumbOf (2024, 1, 12) ''/b'', thumbOf (2024, 1, 10) ''/c''] [] \<noteq>
   Inr (urlsOf (takeWhile (datedAfter (2024, 1, 10))
     [thumbOf (2024, 1, 13) ''/a'', thumbOf (2024, 1, 12) ''/b'', thumbOf (2024, 1, 10) ''/c'']))"
  by (simp add: datedAfter_def thumbOf_def After_def urlsOf_def baseURL_def)

section \<open>Runs with nothing to fetch\<close>

lemmas run_defs = andThen_def ret_def panic_def emit_def orPanic_def panicIf_def

lemmas date_defs = parseLocal_def readLastDateBytes_def isDigit_def digitVal_def daysIn_def
  isLeap_def IsZero_def zeroTime_def After_def

lemma char_of_digit:
  "char_of (48::nat) = CHR ''0''" "char_of (49::nat) = CHR ''1''" "char_of (50::nat) = CHR ''2''"
  "char_of (51::nat) = CHR ''3''" "char_of (52::nat) = CHR ''4''" "char_of (53::nat) = CHR ''5''"
  "char_of (54::nat) = CHR ''6''" "char_of (55::nat) = CHR ''7''" "char_of (56::nat) = CHR ''8''"
  "char_of (57::nat) = CHR ''9''"
  by code_simp+

lemmas format_defs = formatLocal_def appendInt_def char_of_digit

lemmas page_defs = ok_def image_def thumbsPage_def transitionalPage_def photoPage_def thumbOf_def

lemma main_split:
  "main E = andThen (computeWindow E)
              (\<lambda>r. case r of None \<Rightarrow> ret () | Some urls \<Rightarrow> processUrls E urls)"
  by (rule ext)
    (simp add: main_def computeWindow_def andThen_def ret_def Let_def
      split: prod.splits sum.splits option.splits)

lemma computeWindow_effect:
  "computeWindow E w = (Inr (Some urls), w') \<Longrightarrow>
     trace w' = trace w @ [Get startURL] \<and> images w' = images w \<and>
     (wpFile w' = wpFile w \<or> wpFile w = None \<and> wpFile w' = Some [CHR 0x0A])"
  by (auto simp: computeWindow_def run_defs makeImgDir_def fetchLastDate_def listThumbs_def
      getResponse_def NewDocument_def Let_def
      split: prod.splits sum.splits option.splits if_splits)

text \<open>
  In part\_000 (and in part\_001, whose loop stands under the same test of \<^verbatim>\<open>len(urls)\<close>)
  a run whose window is empty returns normally in the world it had when the window was
  computed: the only request is that of the listing, no image is written, and the ledger
  is as it was, or the one line feed written on its creation.
\<close>

lemma main_empty_window:
  assumes "computeWindow E w = (Inr (Some []), w')"
  shows "main E w = (Inr (), w') \<and> trace w' = trace w @ [Get startURL] \<and> images w' = images w \<and>
         (wpFile w' = wpFile w \<or> wpFile w = None \<and> wpFile w' = Some [CHR 0x0A])"
proof -
  have "main E w = (Inr (), w')"
    using assms by (simp add: main_split andThen_def processUrls_def ret_def)
  with computeWindow_effect [OF assms] show ?thesis by simp
qed

text \<open>
  C2 on bingwallpaper.go. On January 11, with a ledger that ends at January 10 and a
  listing whose first thumb is that of January 10, the slice \<^verbatim>\<open>urls\<close> is empty; the
  loop is not entered and \<^verbatim>\<open>urls[0]\<close> panics, after the request of the listing.
\<close>

theorem main0_empty_window_panics:
  "main0 nothingNew0 (ledgerWorld ledgerJan10) =
     (Inl IndexOutOfRange, (ledgerWorld ledgerJan10)\<lparr>trace := [Get baseURL]\<rparr>)"
  by (simp add: main0_def nothingNew0_def ledgerWorld_def ledgerJan10_def run_defs makeImgDir_def
      fetchLastDate_def date_defs listThumbs_def getResponse_def NewDocument_def page_defs
      processUrls0_def)

section \<open>Thumbs dated after today\<close>

text \<open>
  In part\_000 and part\_001 a thumb dated after today and after the last date is passed
  over, and the scan goes on behind it with the same URLs collected so far.
\<close>

lemma collectUrls_skips_future:
  assumes "datedAfter tday t" and "datedAfter lastDate t"
  shows "collectUrls lastDate tday (t # rest) acc = collectUrls lastDate tday rest acc"
  using assms by (auto simp: datedAfter_def split: option.splits)

text \<open>
  C3 on bingwallpaper.go. On January 11, with the ledger at January 10 and the listing
  January 12, 11, 10, the thumb of January 12 is collected; the run fetches and records
  January 11 and then requests the page of January 12, whose status 404 ends it.
\<close>

theorem main0_collects_future:
  "collectUrls0 (2024, 1, 10)
     [thumbOf (2024, 1, 12) ''/p/12'', thumbOf (2024, 1, 11) ''/p/11'',
      thumbOf (2024, 1, 10) ''/p/10''] [] =
     Inr [''https://bing.gifposter.com/p/12'', ''https://bing.gifposter.com/p/11'']
   \<and> fst (main0 tomorrowListed0 (ledgerWorld ledgerJan10)) = Inl StatusError
   \<and> trace (snd (main0 tomorrowListed0 (ledgerWorld ledgerJan10))) =
       [Get ''https://bing.gifposter.com'',
        Get ''https://bing.gifposter.com/p/11'',
        Get ''https://bing.gifposter.com/img/11.jpg'',
        Sed (''1s;^;20240111 11.jpg Dunes'' @ [CHR 0x5C] @ ''n;''),
        Get ''https://bing.gifposter.com/p/12'']"
  by (simp add: main0_def tomorrowListed0_def ledgerWorld_def ledgerJan10_def run_defs
      makeImgDir_def fetchLastDate_def date_defs listThumbs_def getResponse_def NewDocument_def
      page_defs processUrls0_def downloadWallpaper0_def saveImage0_def logWallpaper0_def
      baseURL_def afterLastSlash_def COPYRIGHT_TEXT_def sedScript_def ledgerLine_def
      format_defs Replace_def)

section \<open>The first eight bytes of the ledger\<close>

lemma parseLocal_needs_digits: "\<not> list_all isDigit s \<Longrightarrow> parseLocal s = None"
  by (simp add: parseLocal_def split: list.splits)

lemma parseLocal_short:
  assumes "length f < 8"
  shows "parseLocal (readLastDateBytes f) = None"
proof -
  have "CHR 0x00 \<in> set (readLastDateBytes f)"
    using assms by (simp add: readLastDateBytes_def)
  moreover have "\<not> isDigit (CHR 0x00)"
    by (simp add: isDigit_def)
  ultimately have "\<not> list_all isDigit (readLastDateBytes f)"
    by (auto simp: list_all_iff)
  then show ?thesis by (rule parseLocal_needs_digits)
qed

text \<open>
  C10, as amended. A ledger file of one to seven bytes is read without error into the
  buffer of eight, the bytes behind it stay zero, the parse of the date fails and the run
  panics there, in the world it started from: it neither takes the ledger for missing nor
  falls back to yesterday. An empty ledger file ends the run one step earlier, at the read
  itself.
\<close>

theorem short_ledger_aborts:
  assumes "imgDirExists w" and "wpFile w = Some f" and "length f < 8"
    and "\<not> fails E OpenLedger"
  shows "main E w = (Inl (if f = [] then ReadError else LedgerDateError), w)"
  using assms parseLocal_short [OF assms(3)]
  by (simp add: main_def run_defs makeImgDir_def fetchLastDate_def)

theorem short_ledger_aborts_witness:
  "main nothingNew0 (ledgerWorld [CHR 0x0A]) = (Inl LedgerDateError, ledgerWorld [CHR 0x0A])"
  using short_ledger_aborts [of "ledgerWorld [CHR 0x0A]" "[CHR 0x0A]" nothingNew0]
  by (simp add: ledgerWorld_def nothingNew0_def)

text \<open>
  C10 as stated fails on the empty ledger file, which is shorter than eight bytes: there
  the read returns the error of the end of the file, and the panic is that of the read.
\<close>

theorem empty_ledger_counterexample:
  "fst (main nothingNew0 (ledgerWorld [])) = Inl ReadError
   \<and> fst (main nothingNew0 (ledgerWorld [])) \<noteq> Inl LedgerDateError"
  by (simp add: main_def run_defs makeImgDir_def fetchLastDate_def ledgerWorld_def nothingNew0_def)

text \<open>The fast path: a ledger that begins with the date of today ends the run at once.\<close>

lemma main_fast_path:
  assumes "imgDirExists w" and "wpFile w = Some f" and "\<not> fails E OpenLedger"
    and "parseLocal (readLastDateBytes f) = Some (today E)"
  shows "main E w = (Inr (), w)"
proof -
  have "f \<noteq> []"
    using assms(4) parseLocal_short [of f] by auto
  then show ?thesis
    using assms by (simp add: main_def run_defs makeImgDir_def fetchLastDate_def)
qed

section \<open>Writing and reading a date of the ledger\<close>








lemma digit_char: "n < 10 \<Longrightarrow> isDigit (char_of (48 + n)) \<and> digitVal (char_of (48 + n)) = n"
  by (simp add: isDigit_def digitVal_def)







section \<open>What the editor reads in the line of a record\<close>












section \<open>The steps of a run\<close>




























section \<open>The dates of the ledger\<close>








section \<open>The window and the ledger at the start of the loop\<close>





lemma fetchLastDate_exit:
  assumes "fetchLastDate E w = (Inr None, w1)"
  shows "w1 = w"
  using assms
  by (cases "wpFile w") (auto simp: fetchLastDate_def run_defs split: if_splits option.splits)





section \<open>What a run does to the ledger\<close>







section \<open>The concrete site\<close>





section \<open>Runs in which nothing fails\<close>





lemma home_siteEnv: "home (siteEnv pages ts t) = ''/home/u''"
  by (simp add: siteEnv_def)








section \<open>Catching up\<close>





section \<open>The order of the ledger\<close>











end
